theory Spec2Isabelle
  imports Complex_Main "HOL-Library.Char_ord" "HOL-Library.List_Lexorder"
begin

section \<open>The likelihood-ratio policy-gradient model (pg_prob_ratio_model.py)\<close>

text \<open>
  The class \<open>PGProbRatioModel\<close> is embedded with its tensors over the real numbers:
  a tensor is its shape together with its entries in row-major order, a tensor of rank one
  (one value per instance of the batch) is a list, a tensor of rank two a list of rows.
  The collaborators of the class that live elsewhere (the network, the distributions, the
  reward estimation, the regularisation losses, the superclass) are fields or parameters.
  The variables of the computation graph, which the Python code reaches implicitly, are an
  explicit argument \<open>vars\<close> of everything that reads them.
\<close>

subsection \<open>Failures\<close>

text \<open>
  Every way in which the code stops is a value. \<open>Not_a_number\<close> is not an exception: the
  mean of no values is NaN on floats, which no real number stands for, so the model keeps it
  apart from the numbers.
\<close>

datatype failure = Assertion_error | Key_error | Value_error | Shape_error | Not_a_number

definition and_then :: "failure + 'a \<Rightarrow> ('a \<Rightarrow> failure + 'b) \<Rightarrow> failure + 'b" where
  "and_then r f = (case r of Inl e \<Rightarrow> Inl e | Inr x \<Rightarrow> f x)"

subsection \<open>Tensors and the operations of the tensor library\<close>

record tensor =
  shape :: "nat list"
  entries :: "real list"

text \<open>\<open>tf.stop_gradient\<close>: the identity on values (it only cuts the gradient).\<close>

definition tf_stop_gradient :: "tensor \<Rightarrow> tensor" where
  "tf_stop_gradient t = t"

text \<open>
  Subtraction of two tensors, entry by entry. The code subtracts a tensor from a copy of
  itself only; operands of different shapes, which the library would try to broadcast,
  are reported as a shape error.
\<close>

definition tf_subtract :: "tensor \<Rightarrow> tensor \<Rightarrow> failure + tensor" where
  "tf_subtract s t =
     (if shape s = shape t
      then Inr \<lparr>shape = shape s, entries = map2 minus (entries s) (entries t)\<rparr>
      else Inl Shape_error)"

definition tf_exp :: "tensor \<Rightarrow> tensor" where
  "tf_exp t = t\<lparr>entries := map exp (entries t)\<rparr>"

text \<open>
  Modelled from the spec: \<open>util.shape\<close> and \<open>util.prod\<close> of the repository's \<open>util\<close>
  module, which is not among the sources: the shape of a tensor, and the product of a tuple
  of dimensions (one for the empty tuple), so that \<open>util.prod(util.shape(t)[1:])\<close> is the
  number of entries per instance, the non-batch dimensions collapsed.
\<close>

definition util_shape :: "tensor \<Rightarrow> nat list" where
  "util_shape t = shape t"

definition util_prod :: "nat list \<Rightarrow> nat" where
  "util_prod ds = foldl times 1 ds"

text \<open>
  \<open>tf.reshape(tensor, shape=(-1, c))\<close>: rows of \<open>c\<close> entries each, as many as the entries
  fill. The number of rows cannot be inferred when \<open>c\<close> is zero or does not divide the
  number of entries.
\<close>

definition tf_reshape :: "tensor \<Rightarrow> nat \<Rightarrow> failure + real list list" where
  "tf_reshape t c =
     (if c = 0 \<or> length (entries t) mod c \<noteq> 0 then Inl Shape_error
      else Inr (map (\<lambda>i. take c (drop (i * c) (entries t))) [0..<length (entries t) div c]))"

text \<open>
  \<open>tf.concat(values, axis=1)\<close> on tensors of rank two: row \<open>i\<close> of the result is the rows
  \<open>i\<close> of the values one after the other. No value at all is a \<open>ValueError\<close>; values that
  disagree on the number of rows do not fit.
\<close>

fun tf_concat_axis1 :: "real list list list \<Rightarrow> failure + real list list" where
  "tf_concat_axis1 [] = Inl Value_error"
| "tf_concat_axis1 (v # vs) =
     (if list_all (\<lambda>w. length w = length v) vs
      then Inr (map (\<lambda>i. concat (map (\<lambda>w. w ! i) (v # vs))) [0..<length v])
      else Inl Shape_error)"

text \<open>The mean of a list of numbers; of no numbers it is NaN.\<close>

definition mean :: "real list \<Rightarrow> failure + real" where
  "mean xs = (if xs = [] then Inl Not_a_number else Inr (sum_list xs / real (length xs)))"

text \<open>\<open>tf.reduce_mean(input_tensor, axis=1)\<close> on a tensor of rank two: the mean of each row.\<close>

fun tf_reduce_mean_axis1 :: "real list list \<Rightarrow> failure + real list" where
  "tf_reduce_mean_axis1 [] = Inr []"
| "tf_reduce_mean_axis1 (row # rows) =
     and_then (mean row) (\<lambda>x. and_then (tf_reduce_mean_axis1 rows) (\<lambda>xs. Inr (x # xs)))"

text \<open>\<open>tf.reduce_mean(input_tensor, axis=0)\<close> on a tensor of rank one: the mean over the batch.\<close>

definition tf_reduce_mean_axis0 :: "real list \<Rightarrow> failure + real" where
  "tf_reduce_mean_axis0 xs = mean xs"

text \<open>
  A binary operation on two tensors of rank one, as the overloaded operators and
  \<open>tf.minimum\<close> apply it: entry by entry when the lengths agree, a tensor of one entry
  is broadcast, anything else does not fit.
\<close>

definition elementwise :: "(real \<Rightarrow> real \<Rightarrow> real) \<Rightarrow> real list \<Rightarrow> real list \<Rightarrow> failure + real list" where
  "elementwise f xs ys =
     (if length xs = length ys then Inr (map2 f xs ys)
      else if length xs = 1 then Inr (map (f (hd xs)) ys)
      else if length ys = 1 then Inr (map (\<lambda>x. f x (hd ys)) xs)
      else Inl Shape_error)"

text \<open>
  \<open>tf.clip_by_value(t, clip_value_min, clip_value_max)\<close>: the library takes the minimum
  with the upper bound first and the maximum with the lower bound second.
\<close>

definition tf_clip_by_value :: "real list \<Rightarrow> real \<Rightarrow> real \<Rightarrow> real list" where
  "tf_clip_by_value t clip_value_min clip_value_max =
     map (\<lambda>x. max (min x clip_value_max) clip_value_min) t"

text \<open>\<open>tf.add_n(inputs)\<close> on scalars: their sum; it refuses an empty list.\<close>

definition tf_add_n :: "real list \<Rightarrow> failure + real" where
  "tf_add_n inputs = (if inputs = [] then Inl Value_error else Inr (sum_list inputs))"

subsection \<open>The model and its collaborators\<close>

text \<open>
  A distribution of one action channel: \<open>parameterize\<close> reads the variables,
  \<open>log_probability\<close> is a function of the parameters and the action taken.
\<close>

record ('v, 'e, 'q, 'a) distribution =
  parameterize :: "'v \<Rightarrow> 'e \<Rightarrow> 'q"
  log_probability :: "'q \<Rightarrow> 'a \<Rightarrow> tensor"

text \<open>The arguments that the three graph functions share.\<close>

record ('x, 'i, 'a) batch =
  states :: 'x
  internals :: 'i
  actions :: "string \<rightharpoonup> 'a"
  terminal :: "bool list"
  reward :: "real list"
  next_states :: 'x
  next_internals :: 'i
  update :: bool

text \<open>
  The superclass \<open>PGModel\<close> is not among the sources; what this class uses of it are
  these fields. The dictionary \<open>distributions\<close> is an association list in insertion order,
  the dictionary of regularisation losses likewise.
\<close>

record ('v, 'x, 'i, 'e, 'q, 'a) pg_model =
  network :: "'v \<Rightarrow> 'x \<Rightarrow> 'i \<Rightarrow> bool \<Rightarrow> 'e"
  distributions :: "(string \<times> ('v, 'e, 'q, 'a) distribution) list"
  fn_reward_estimation :: "'v \<Rightarrow> 'x \<Rightarrow> 'i \<Rightarrow> bool list \<Rightarrow> real list \<Rightarrow> bool \<Rightarrow> real list"
  fn_regularization_losses :: "'v \<Rightarrow> 'x \<Rightarrow> 'i \<Rightarrow> bool \<Rightarrow> (string \<times> real) list"

text \<open>
  \<open>PGProbRatioModel\<close> adds three attributes. An attribute that may hold \<open>None\<close> is an
  option; \<open>'f\<close> is the type of the objects that \<open>reference\<close> and \<open>compare\<close> are bound to.
\<close>

record ('v, 'x, 'i, 'e, 'q, 'a, 'f) pg_prob_ratio_model = "('v, 'x, 'i, 'e, 'q, 'a) pg_model" +
  likelihood_ratio_clipping :: "real option"
  reference :: "'f option"
  compare :: "'f option"

subsection \<open>Construction\<close>

text \<open>
  \<open>__init__\<close>: the assertion on the clipping threshold comes first, then the three
  attributes are set, then the constructor of the superclass runs on the remaining
  arguments. Its outcome is the parameter \<open>super_init\<close>: a failure of its own, or the
  attributes of the superclass.
\<close>

definition init ::
  "real option \<Rightarrow> failure + ('v, 'x, 'i, 'e, 'q, 'a) pg_model
     \<Rightarrow> failure + ('v, 'x, 'i, 'e, 'q, 'a, 'f) pg_prob_ratio_model" where
  "init clipping super_init =
     (if (case clipping of None \<Rightarrow> True | Some c \<Rightarrow> 0 < c)
      then and_then super_init (\<lambda>base.
        Inr (pg_model.extend base
          (pg_prob_ratio_model.fields clipping None None)))
      else Inl Assertion_error)"

subsection \<open>The three graph functions\<close>

text \<open>
  Lines 117-118, 138-139 and 157-158: a tensor is reshaped to one row per instance, of
  \<open>collapsed_size\<close> entries.
\<close>

definition collapse :: "tensor \<Rightarrow> failure + real list list" where
  "collapse t = tf_reshape t (util_prod (tl (util_shape t)))"

text \<open>
  The loop of \<open>tf_loss_per_instance\<close> over \<open>self.distributions.items()\<close>, in insertion
  order: the probability ratio of each channel against its own value with the gradient
  stopped.
\<close>

fun prob_ratios ::
  "'v \<Rightarrow> ('x, 'i, 'a) batch \<Rightarrow> 'e \<Rightarrow> (string \<times> ('v, 'e, 'q, 'a) distribution) list
     \<Rightarrow> failure + real list list list" where
  "prob_ratios vars b embedding [] = Inr []"
| "prob_ratios vars b embedding ((name, distribution) # items) =
     (let distr_params = parameterize distribution vars embedding in
      case actions b name of
        None \<Rightarrow> Inl Key_error
      | Some action \<Rightarrow>
          (let log_prob = log_probability distribution distr_params action;
               fixed_log_prob = tf_stop_gradient log_prob
           in and_then (tf_subtract log_prob fixed_log_prob) (\<lambda>d.
              and_then (collapse (tf_exp d)) (\<lambda>prob_ratio.
              and_then (prob_ratios vars b embedding items) (\<lambda>rest.
              Inr (prob_ratio # rest))))))"

text \<open>Lines 107-120: the combined probability ratio, one per instance.\<close>

definition loss_prob_ratio ::
  "('v, 'x, 'i, 'e, 'q, 'a, 'f) pg_prob_ratio_model \<Rightarrow> 'v \<Rightarrow> ('x, 'i, 'a) batch
     \<Rightarrow> failure + real list" where
  "loss_prob_ratio m vars b =
     (let embedding = network m vars (states b) (internals b) (update b) in
      and_then (prob_ratios vars b embedding (distributions m)) (\<lambda>ratios.
      and_then (tf_concat_axis1 ratios) tf_reduce_mean_axis1))"

text \<open>Lines 124-128 and 165-169: the ratio clipped to \<open>[1 / (1 + c), 1 + c]\<close>.\<close>

definition clipped_prob_ratio :: "real \<Rightarrow> real list \<Rightarrow> real list" where
  "clipped_prob_ratio c prob_ratio = tf_clip_by_value prob_ratio (1 / (1 + c)) (1 + c)"

definition tf_loss_per_instance ::
  "('v, 'x, 'i, 'e, 'q, 'a, 'f) pg_prob_ratio_model \<Rightarrow> 'v \<Rightarrow> ('x, 'i, 'a) batch
     \<Rightarrow> failure + real list" where
  "tf_loss_per_instance m vars b =
     and_then (loss_prob_ratio m vars b) (\<lambda>prob_ratio.
       case likelihood_ratio_clipping m of
         None \<Rightarrow> elementwise times (map uminus prob_ratio) (reward b)
       | Some c \<Rightarrow>
           and_then (elementwise times prob_ratio (reward b)) (\<lambda>x.
           and_then (elementwise times (clipped_prob_ratio c prob_ratio) (reward b)) (\<lambda>y.
           and_then (elementwise min x y) (\<lambda>z. Inr (map uminus z)))))"

text \<open>
  The loop that \<open>tf_reference\<close> (lines 133-140) and \<open>tf_compare\<close> (lines 152-159) both
  run over \<open>sorted(self.distributions)\<close>: the collapsed log-probability of each channel.
\<close>

fun log_probs ::
  "(string \<times> ('v, 'e, 'q, 'a) distribution) list \<Rightarrow> 'v \<Rightarrow> ('x, 'i, 'a) batch \<Rightarrow> 'e
     \<Rightarrow> string list \<Rightarrow> failure + real list list list" where
  "log_probs ds vars b embedding [] = Inr []"
| "log_probs ds vars b embedding (name # names) =
     (case map_of ds name of
        None \<Rightarrow> Inl Key_error
      | Some distribution \<Rightarrow>
          (let distr_params = parameterize distribution vars embedding in
           case actions b name of
             None \<Rightarrow> Inl Key_error
           | Some action \<Rightarrow>
               and_then (collapse (log_probability distribution distr_params action)) (\<lambda>log_prob.
               and_then (log_probs ds vars b embedding names) (\<lambda>rest.
               Inr (log_prob # rest)))))"

definition tf_reference ::
  "('v, 'x, 'i, 'e, 'q, 'a, 'f) pg_prob_ratio_model \<Rightarrow> 'v \<Rightarrow> ('x, 'i, 'a) batch
     \<Rightarrow> failure + real list" where
  "tf_reference m vars b =
     (let embedding = network m vars (states b) (internals b) (update b) in
      and_then (log_probs (distributions m) vars b embedding (sort (map fst (distributions m))))
        (\<lambda>lps. and_then (tf_concat_axis1 lps) tf_reduce_mean_axis1))"

text \<open>Lines 151-161 of \<open>tf_compare\<close>: the ratio against the reference handed in.\<close>

definition compare_prob_ratio ::
  "('v, 'x, 'i, 'e, 'q, 'a, 'f) pg_prob_ratio_model \<Rightarrow> 'v \<Rightarrow> real list \<Rightarrow> ('x, 'i, 'a) batch
     \<Rightarrow> failure + real list" where
  "compare_prob_ratio m vars ref b =
     (let embedding = network m vars (states b) (internals b) (update b) in
      and_then (log_probs (distributions m) vars b embedding (sort (map fst (distributions m))))
        (\<lambda>lps. and_then (tf_concat_axis1 lps) (\<lambda>rows.
         and_then (tf_reduce_mean_axis1 rows) (\<lambda>log_prob.
         and_then (elementwise minus log_prob ref) (\<lambda>d. Inr (map exp d))))))"

text \<open>Lines 162-170: the gain of each instance, clipped or not.\<close>

definition gain_per_instance :: "real option \<Rightarrow> real list \<Rightarrow> real list \<Rightarrow> failure + real list" where
  "gain_per_instance clipping prob_ratio rw =
     (case clipping of
        None \<Rightarrow> elementwise times prob_ratio rw
      | Some c \<Rightarrow>
          and_then (elementwise times prob_ratio rw) (\<lambda>x.
          and_then (elementwise times (clipped_prob_ratio c prob_ratio) rw) (\<lambda>y.
          elementwise min x y)))"

text \<open>Lines 171-175: the mean over the batch, less the regularisation losses if there are any.\<close>

definition reduce_gain :: "real list \<Rightarrow> (string \<times> real) list \<Rightarrow> failure + real" where
  "reduce_gain gains losses =
     and_then (tf_reduce_mean_axis0 gains) (\<lambda>gain.
       if length losses > 0
       then and_then (tf_add_n (map snd losses)) (\<lambda>l. Inr (gain - l))
       else Inr gain)"

definition tf_compare ::
  "('v, 'x, 'i, 'e, 'q, 'a, 'f) pg_prob_ratio_model \<Rightarrow> 'v \<Rightarrow> real list \<Rightarrow> ('x, 'i, 'a) batch
     \<Rightarrow> failure + real" where
  "tf_compare m vars ref b =
     (let rw = fn_reward_estimation m vars (states b) (internals b) (terminal b) (reward b) (update b)
      in and_then (compare_prob_ratio m vars ref b) (\<lambda>prob_ratio.
         and_then (gain_per_instance (likelihood_ratio_clipping m) prob_ratio rw) (\<lambda>gains.
         reduce_gain gains (fn_regularization_losses m vars (states b) (internals b) (update b)))))"

subsection \<open>The arguments of the optimizer\<close>

text \<open>
  \<open>optimizer_arguments\<close>: the dictionary that the superclass returns is the parameter
  \<open>super_arguments\<close>; the two assignments update it.
\<close>

definition optimizer_arguments ::
  "('v, 'x, 'i, 'e, 'q, 'a, 'f) pg_prob_ratio_model \<Rightarrow> (string \<rightharpoonup> 'f option)
     \<Rightarrow> (string \<rightharpoonup> 'f option)" where
  "optimizer_arguments m super_arguments =
     (super_arguments(''fn_reference'' \<mapsto> reference m))(''fn_compare'' \<mapsto> compare m)"

subsection \<open>Notions used to state the properties\<close>

text \<open>
  The clamp as the specification writes it, \<open>clamp(x, lo, hi)\<close>: the nearest value to
  \<open>x\<close> in the interval from \<open>lo\<close> to \<open>hi\<close>.
\<close>

definition spec_clamp :: "real \<Rightarrow> real \<Rightarrow> real \<Rightarrow> real" where
  "spec_clamp x lo hi = (if x < lo then lo else if hi < x then hi else x)"

text \<open>
  A tensor that holds, for each of \<open>n\<close> instances, the same positive number of entries:
  what a distribution returns as log-probability for a batch of \<open>n\<close> instances.
\<close>

definition instance_tensor :: "nat \<Rightarrow> tensor \<Rightarrow> bool" where
  "instance_tensor n t \<longleftrightarrow>
     0 < util_prod (tl (util_shape t)) \<and>
     length (entries t) = n * util_prod (tl (util_shape t))"

text \<open>
  Every channel of \<open>items\<close> finds its action in the batch and returns such a tensor for it.
\<close>

definition channels_fit ::
  "'v \<Rightarrow> ('x, 'i, 'a) batch \<Rightarrow> 'e \<Rightarrow> nat \<Rightarrow> (string \<times> ('v, 'e, 'q, 'a) distribution) list
     \<Rightarrow> bool" where
  "channels_fit vars b embedding n items \<longleftrightarrow>
     list_all (\<lambda>(name, d). case actions b name of
         None \<Rightarrow> False
       | Some a \<Rightarrow> instance_tensor n (log_probability d (parameterize d vars embedding) a)) items"



subsection \<open>Concrete models\<close>

text \<open>
  The scenario of the specification: a batch of two instances, one action channel \<open>a\<close>
  whose log-probabilities are \<open>ln 1.5\<close> and \<open>ln 0.5\<close> (so that against the reference
  \<open>[0, 0]\<close> the ratios are \<open>1.5\<close> and \<open>0.5\<close>), rewards \<open>1\<close> and \<open>-1\<close> that the reward
  estimation leaves as they are, clipping threshold \<open>0.2\<close>, no regularisation loss.
\<close>

definition scenario_distribution :: "(unit, unit, unit, unit) distribution" where
  "scenario_distribution =
     \<lparr>parameterize = (\<lambda>_ _. ()),
      log_probability = (\<lambda>_ _. \<lparr>shape = [2], entries = [ln (3 / 2), ln (1 / 2)]\<rparr>)\<rparr>"

definition scenario_model :: "(unit, unit, unit, unit, unit, unit, string) pg_prob_ratio_model" where
  "scenario_model =
     \<lparr>network = (\<lambda>_ _ _ _. ()),
      distributions = [(''a'', scenario_distribution)],
      fn_reward_estimation = (\<lambda>_ _ _ _ rw _. rw),
      fn_regularization_losses = (\<lambda>_ _ _ _. []),
      likelihood_ratio_clipping = Some (1 / 5),
      reference = None,
      compare = None\<rparr>"

definition scenario_batch :: "(unit, unit, unit) batch" where
  "scenario_batch =
     \<lparr>states = (), internals = (), actions = [''a'' \<mapsto> ()], terminal = [False, False],
      reward = [1, - 1], next_states = (), next_internals = (), update = True\<rparr>"

text \<open>
  A model of two channels and a batch of one instance: the log-probability of channel \<open>a\<close>
  has two entries per instance, that of channel \<open>b\<close> one. The dictionary was filled with
  \<open>b\<close> first. There is one regularisation loss.
\<close>

definition channel_a :: "(unit, unit, unit, unit) distribution" where
  "channel_a =
     \<lparr>parameterize = (\<lambda>_ _. ()),
      log_probability = (\<lambda>_ _. \<lparr>shape = [1, 2], entries = [3, 3]\<rparr>)\<rparr>"

definition channel_b :: "(unit, unit, unit, unit) distribution" where
  "channel_b =
     \<lparr>parameterize = (\<lambda>_ _. ()),
      log_probability = (\<lambda>_ _. \<lparr>shape = [1], entries = [0]\<rparr>)\<rparr>"

definition two_channel_model :: "(unit, unit, unit, unit, unit, unit, string) pg_prob_ratio_model" where
  "two_channel_model =
     \<lparr>network = (\<lambda>_ _ _ _. ()),
      distributions = [(''b'', channel_b), (''a'', channel_a)],
      fn_reward_estimation = (\<lambda>_ _ _ _ rw _. rw),
      fn_regularization_losses = (\<lambda>_ _ _ _. [(''l2'', 1 / 20)]),
      likelihood_ratio_clipping = None,
      reference = None,
      compare = None\<rparr>"

definition two_channel_batch :: "(unit, unit, unit) batch" where
  "two_channel_batch =
     \<lparr>states = (), internals = (), actions = [''a'' \<mapsto> (), ''b'' \<mapsto> ()], terminal = [False],
      reward = [1], next_states = (), next_internals = (), update = True\<rparr>"

section \<open>Properties\<close>

subsection \<open>The operations of the tensor library\<close>

lemma and_then_simps [simp]:
  "and_then (Inl e) f = Inl e"
  "and_then (Inr x) f = f x"
  by (simp_all add: and_then_def)

lemma elementwise_same_length:
  "length xs = length ys \<Longrightarrow> elementwise f xs ys = Inr (map2 f xs ys)"
  by (simp add: elementwise_def)

lemma tf_reshape_rows:
  assumes "0 < c" "length (entries t) = n * c"
  shows "tf_reshape t c = Inr (map (\<lambda>i. take c (drop (i * c) (entries t))) [0..<n])"
  using assms by (simp add: tf_reshape_def)

lemma row_min:
  assumes "i < n"
  shows "min (n * c - i * c) c = (c::nat)"
proof -
  have "Suc i \<le> n" using assms by simp
  then have "Suc i * c \<le> n * c" by (rule mult_le_mono1)
  then show ?thesis by simp
qed

lemma collapse_instance_tensor:
  assumes "instance_tensor n t"
  shows "\<exists>rows. collapse t = Inr rows \<and> length rows = n \<and>
           (\<forall>row \<in> set rows. length row = util_prod (tl (util_shape t)))"
  using assms
  by (auto simp: instance_tensor_def collapse_def tf_reshape_rows row_min)

lemma tf_subtract_self:
  "tf_subtract t (tf_stop_gradient t) = Inr \<lparr>shape = shape t, entries = replicate (length (entries t)) 0\<rparr>"
proof -
  have "map2 minus xs xs = replicate (length xs) 0" for xs :: "real list"
    by (induction xs) simp_all
  then show ?thesis by (simp add: tf_subtract_def tf_stop_gradient_def)
qed

lemma ratio_of_self:
  assumes "instance_tensor n t"
  shows "collapse (tf_exp \<lparr>shape = shape t, entries = replicate (length (entries t)) 0\<rparr>)
       = Inr (replicate n (replicate (util_prod (tl (util_shape t))) 1))"
proof -
  let ?c = "util_prod (tl (util_shape t))"
  let ?u = "tf_exp \<lparr>shape = shape t, entries = replicate (length (entries t)) 0\<rparr>"
  have e: "entries ?u = replicate (n * ?c) 1" and s: "util_shape ?u = util_shape t"
    using assms by (simp_all add: tf_exp_def instance_tensor_def util_shape_def)
  have c: "0 < ?c" using assms by (simp add: instance_tensor_def)
  have "length (entries ?u) = n * ?c" using e by simp
  then have "collapse ?u = Inr (map (\<lambda>i. take ?c (drop (i * ?c) (entries ?u))) [0..<n])"
    unfolding collapse_def s using c by (rule tf_reshape_rows[rotated])
  also have "map (\<lambda>i. take ?c (drop (i * ?c) (entries ?u))) [0..<n] = replicate n (replicate ?c 1)"
  proof (rule nth_equalityI)
    fix i assume "i < length (map (\<lambda>i. take ?c (drop (i * ?c) (entries ?u))) [0..<n])"
    then have i: "i < n" by simp
    then have "Suc i * ?c \<le> n * ?c" by (intro mult_le_mono1) simp
    then have "min (n * ?c - i * ?c) ?c = ?c" by simp
    then show "map (\<lambda>i. take ?c (drop (i * ?c) (entries ?u))) [0..<n] ! i
             = replicate n (replicate ?c 1) ! i"
      using i unfolding e by (simp add: min.commute)
  qed simp
  finally show ?thesis .
qed

lemma tf_reduce_mean_axis1_rows:
  assumes "\<forall>row \<in> set rows. row \<noteq> []"
  shows "tf_reduce_mean_axis1 rows = Inr (map (\<lambda>row. sum_list row / real (length row)) rows)"
  using assms by (induction rows) (simp_all add: mean_def)

lemma tf_concat_axis1_rows:
  assumes "vs \<noteq> []" "\<forall>v \<in> set vs. length v = n"
  shows "tf_concat_axis1 vs = Inr (map (\<lambda>i. concat (map (\<lambda>w. w ! i) vs)) [0..<n])"
proof (cases vs)
  case Nil
  then show ?thesis using assms by simp
next
  case (Cons v ws)
  then show ?thesis using assms by (simp add: list_all_iff)
qed

lemma channels_fit_Cons:
  "channels_fit vars b e n ((name, d) # items) \<longleftrightarrow>
     (\<exists>a. actions b name = Some a \<and> instance_tensor n (log_probability d (parameterize d vars e) a))
     \<and> channels_fit vars b e n items"
  by (auto simp: channels_fit_def split: option.splits)

lemma prob_ratios_ones:
  assumes "channels_fit vars b e n items"
  shows "\<exists>rs. prob_ratios vars b e items = Inr rs \<and> length rs = length items \<and>
           (\<forall>r \<in> set rs. \<exists>c>0. r = replicate n (replicate c 1))"
  using assms
proof (induction items)
  case Nil
  then show ?case by simp
next
  case (Cons item items)
  obtain name d where item: "item = (name, d)" by (cases item)
  from Cons.prems obtain a where a: "actions b name = Some a"
    and t: "instance_tensor n (log_probability d (parameterize d vars e) a)"
    and rest: "channels_fit vars b e n items"
    unfolding item channels_fit_Cons by blast
  from Cons.IH[OF rest] obtain rs where rs: "prob_ratios vars b e items = Inr rs"
    "length rs = length items" "\<forall>r \<in> set rs. \<exists>c>0. r = replicate n (replicate c 1)"
    by blast
  let ?t = "log_probability d (parameterize d vars e) a"
  have pos: "0 < util_prod (tl (util_shape ?t))" using t by (simp add: instance_tensor_def)
  have "prob_ratios vars b e (item # items)
      = Inr (replicate n (replicate (util_prod (tl (util_shape ?t))) 1) # rs)"
    by (simp add: item a rs(1) tf_subtract_self ratio_of_self[OF t])
  then show ?case using rs pos by auto
qed

lemma ones_rows:
  assumes "rs \<noteq> []" "\<forall>r \<in> set rs. \<exists>c>0. r = replicate n (replicate c (1::real))"
  shows "and_then (tf_concat_axis1 rs) tf_reduce_mean_axis1 = Inr (replicate n 1)"
proof -
  let ?rows = "map (\<lambda>i. concat (map (\<lambda>w. w ! i) rs)) [0..<n]"
  have len: "\<forall>r \<in> set rs. length r = n" using assms(2) by fastforce
  have cat: "tf_concat_axis1 rs = Inr ?rows"
    using assms(1) len by (rule tf_concat_axis1_rows)
  have row: "row \<noteq> [] \<and> (\<forall>x \<in> set row. x = 1)" if "row \<in> set ?rows" for row
  proof -
    from that obtain i where i: "i < n" and r: "row = concat (map (\<lambda>w. w ! i) rs)" by auto
    have each: "\<exists>c>0. w ! i = replicate c 1" if "w \<in> set rs" for w
      using assms(2) that i by fastforce
    obtain w where w: "w \<in> set rs" using assms(1) by (cases rs) auto
    from each[OF w] have "w ! i \<noteq> []" by auto
    then have "row \<noteq> []" unfolding r using w by auto
    moreover have "\<forall>x \<in> set row. x = 1" unfolding r using each by fastforce
    ultimately show ?thesis by simp
  qed
  have one: "sum_list row / real (length row) = 1" if "row \<noteq> []" "\<forall>x \<in> set row. x = 1"
    for row :: "real list"
  proof -
    have "row = replicate (length row) 1" using that(2) by (simp add: replicate_length_same)
    then have "sum_list row = real (length row)" by (metis sum_list_replicate mult.right_neutral)
    then show ?thesis using that(1) by simp
  qed
  have "tf_reduce_mean_axis1 ?rows = Inr (map (\<lambda>row. sum_list row / real (length row)) ?rows)"
    using row by (intro tf_reduce_mean_axis1_rows) blast
  also have "map (\<lambda>row. sum_list row / real (length row)) ?rows = map (\<lambda>_. 1) ?rows"
  proof (rule map_cong[OF refl])
    fix row assume "row \<in> set ?rows"
    then have "row \<noteq> [] \<and> (\<forall>x \<in> set row. x = 1)" by (rule row)
    then show "sum_list row / real (length row) = 1" using one by blast
  qed
  also have "\<dots> = replicate n 1" by (simp add: map_replicate_const)
  finally show ?thesis by (simp add: cat)
qed

lemma loss_prob_ratio_one:
  assumes "distributions m \<noteq> []"
    "channels_fit vars b (network m vars (states b) (internals b) (update b)) n (distributions m)"
  shows "loss_prob_ratio m vars b = Inr (replicate n 1)"
proof -
  from prob_ratios_ones[OF assms(2)] obtain rs where
    rs: "prob_ratios vars b (network m vars (states b) (internals b) (update b)) (distributions m) = Inr rs"
      "length rs = length (distributions m)" "\<forall>r \<in> set rs. \<exists>c>0. r = replicate n (replicate c 1)"
    by blast
  have "rs \<noteq> []" using rs(2) assms(1) by auto
  then show ?thesis using ones_rows[OF _ rs(3)] by (simp add: loss_prob_ratio_def rs(1))
qed

lemmas scenario_defs = scenario_model_def scenario_batch_def scenario_distribution_def

lemmas two_channel_defs = two_channel_model_def two_channel_batch_def channel_a_def channel_b_def

lemmas tensor_defs = collapse_def tf_reshape_def util_prod_def util_shape_def mean_def
  elementwise_def tf_subtract_def tf_stop_gradient_def tf_exp_def instance_tensor_def
  channels_fit_def

lemma clip_is_clamp:
  assumes "0 < c"
  shows "max (min r (1 + c)) (1 / (1 + c)) = spec_clamp r (1 / (1 + c)) (1 + c)"
proof -
  have "1 / (1 + c) \<le> 1 + c" using assms by (simp add: field_simps)
  then show ?thesis by (auto simp: spec_clamp_def min_def max_def)
qed



lemma gain_per_instance_clipped:
  assumes "length pr = length rw"
  shows "gain_per_instance (Some c) pr rw =
    Inr (map2 (\<lambda>r w. min (r * w) (max (min r (1 + c)) (1 / (1 + c)) * w)) pr rw)"
proof -
  have "map2 min (map2 times pr rw) (map2 times (map (\<lambda>x. max (min x (1 + c)) (1 / (1 + c))) pr) rw)
      = map2 (\<lambda>r w. min (r * w) (max (min r (1 + c)) (1 / (1 + c)) * w)) pr rw"
    using assms by (induction pr rw rule: list_induct2) simp_all
  then show ?thesis
    using assms
    by (simp add: gain_per_instance_def clipped_prob_ratio_def tf_clip_by_value_def
        elementwise_same_length)
qed

lemma gain_per_instance_unclipped:
  "length pr = length rw \<Longrightarrow> gain_per_instance None pr rw = Inr (map2 times pr rw)"
  by (simp add: gain_per_instance_def elementwise_same_length)

lemma clipped_gain_mono:
  fixes r w :: real
  assumes "0 < c1" "c1 \<le> c2" "0 < w"
  shows "min (r * w) (max (min r (1 + c1)) (1 / (1 + c1)) * w)
       \<le> min (r * w) (max (min r (1 + c2)) (1 / (1 + c2)) * w)"
proof -
  have lo1: "1 / (1 + c1) \<le> 1 + c1" using assms by (simp add: field_simps) 
  have lo2: "1 / (1 + c2) \<le> 1 + c2" using assms by (simp add: field_simps)
  have "min r (max (min r (1 + c1)) (1 / (1 + c1))) = min r (1 + c1)"
    using lo1 by (auto simp: min_def max_def)
  moreover have "min r (max (min r (1 + c2)) (1 / (1 + c2))) = min r (1 + c2)"
    using lo2 by (auto simp: min_def max_def)
  moreover have "min (r * w) (x * w) = min r x * w" for x
    using assms(3) by (auto simp: min_def)
  ultimately show ?thesis using assms by (auto simp: min_def)
qed

lemma map2_minus_self: "map exp (map2 minus xs xs) = replicate (length xs) (1::real)"
  by (induction xs) simp_all

lemma log_probs_cong:
  assumes "map_of ds = map_of ds'"
  shows "log_probs ds vars b e names = log_probs ds' vars b e names"
  using assms by (induction names) (simp_all cong: option.case_cong)

lemma sorted_names_eq:
  assumes "distinct (map fst ds)" "distinct (map fst ds')" "set ds = set ds'"
  shows "sort (map fst ds) = sort (map fst ds')"
proof (rule sorted_distinct_set_unique)
  show "set (sort (map fst ds)) = set (sort (map fst ds'))" using assms(3) by simp
qed (simp_all add: assms)

lemma reduce_gain_eq:
  assumes "gains \<noteq> []"
  shows "reduce_gain gains losses =
     Inr (if losses = [] then sum_list gains / real (length gains)
          else sum_list gains / real (length gains) - sum_list (map snd losses))"
  using assms by (simp add: reduce_gain_def tf_reduce_mean_axis0_def mean_def tf_add_n_def)

lemma scenario_ratio: "compare_prob_ratio scenario_model () [0, 0] scenario_batch = Inr [3 / 2, 1 / 2]"
  by (simp add: compare_prob_ratio_def scenario_defs tensor_defs)

lemma scenario_gains:
  "gain_per_instance (Some (1 / 5)) [3 / 2, 1 / 2] [1, - 1] = Inr [6 / 5, - (5 / 6)]"
  by (simp add: gain_per_instance_def clipped_prob_ratio_def tf_clip_by_value_def elementwise_def)




subsection \<open>The scenario of the specification\<close>

text \<open>
  Claim C1, as the code has it. For a clipping threshold of \<open>0.2\<close>, ratios \<open>[1.5, 0.5]\<close> and
  rewards \<open>[1, -1]\<close> the clipped ratios are \<open>[6/5, 5/6]\<close>, the lower bound being
  \<open>1 / (1 + 0.2) = 5/6\<close>, the gains of the two instances are \<open>[6/5, -5/6]\<close>, their mean
  over the batch is \<open>11/60\<close>, and \<open>tf_compare\<close> returns that mean less the sum of the
  regularisation losses.
\<close>

theorem scenario_gain:
  assumes "compare_prob_ratio m vars ref b = Inr [3 / 2, 1 / 2]"
    "fn_reward_estimation m vars (states b) (internals b) (terminal b) (reward b) (update b) = [1, - 1]"
    "likelihood_ratio_clipping m = Some (1 / 5)"
  shows "clipped_prob_ratio (1 / 5) [3 / 2, 1 / 2] = [6 / 5, 5 / 6]
       \<and> gain_per_instance (likelihood_ratio_clipping m) [3 / 2, 1 / 2] [1, - 1] = Inr [6 / 5, - (5 / 6)]
       \<and> tf_reduce_mean_axis0 [6 / 5, - (5 / 6)] = Inr (11 / 60)
       \<and> tf_compare m vars ref b =
           Inr (11 / 60 - sum_list (map snd (fn_regularization_losses m vars (states b) (internals b) (update b))))"
  using assms
  by (simp add: tf_compare_def gain_per_instance_def clipped_prob_ratio_def tf_clip_by_value_def
      elementwise_def reduce_gain_def tf_reduce_mean_axis0_def mean_def tf_add_n_def)

theorem scenario_gain_witness:
  "compare_prob_ratio scenario_model () [0, 0] scenario_batch = Inr [3 / 2, 1 / 2]
   \<and> fn_reward_estimation scenario_model () (states scenario_batch) (internals scenario_batch)
        (terminal scenario_batch) (reward scenario_batch) (update scenario_batch) = [1, - 1]
   \<and> likelihood_ratio_clipping scenario_model = Some (1 / 5)
   \<and> tf_compare scenario_model () [0, 0] scenario_batch = Inr (11 / 60)"
proof -
  have h: "fn_reward_estimation scenario_model () (states scenario_batch) (internals scenario_batch)
        (terminal scenario_batch) (reward scenario_batch) (update scenario_batch) = [1, - 1]"
    "likelihood_ratio_clipping scenario_model = Some (1 / 5)"
    by (simp_all add: scenario_defs)
  have l: "fn_regularization_losses scenario_model () (states scenario_batch)
        (internals scenario_batch) (update scenario_batch) = []"
    by (simp add: scenario_defs)
  from scenario_gain [OF scenario_ratio h]
  have "tf_compare scenario_model () [0, 0] scenario_batch = Inr (11 / 60)"
    unfolding l by simp
  then show ?thesis using scenario_ratio h by blast
qed

text \<open>
  In the scenario of claim C1 the code does not compute the values that the claim gives:
  the clipped ratios are not \<open>[1.2, 0.8]\<close>, the gains are not \<open>[1.2, -0.5]\<close> and the
  result is not \<open>0.35\<close>.
\<close>

theorem scenario_gain_counterexample:
  "compare_prob_ratio scenario_model () [0, 0] scenario_batch = Inr [3 / 2, 1 / 2]
   \<and> fn_reward_estimation scenario_model () (states scenario_batch) (internals scenario_batch)
        (terminal scenario_batch) (reward scenario_batch) (update scenario_batch) = [1, - 1]
   \<and> likelihood_ratio_clipping scenario_model = Some (1 / 5)
   \<and> clipped_prob_ratio (1 / 5) [3 / 2, 1 / 2] \<noteq> [6 / 5, 4 / 5]
   \<and> gain_per_instance (Some (1 / 5)) [3 / 2, 1 / 2] [1, - 1] \<noteq> Inr [6 / 5, - (1 / 2)]
   \<and> tf_compare scenario_model () [0, 0] scenario_batch \<noteq> Inr (7 / 20)"
proof -
  have "tf_compare scenario_model () [0, 0] scenario_batch = Inr (11 / 60)"
    unfolding tf_compare_def Let_def scenario_ratio
    by (simp add: scenario_defs gain_per_instance_def clipped_prob_ratio_def tf_clip_by_value_def
        elementwise_def reduce_gain_def tf_reduce_mean_axis0_def mean_def)
  moreover have "clipped_prob_ratio (1 / 5) [3 / 2, 1 / 2] = [6 / 5, 5 / 6]"
    by (simp add: clipped_prob_ratio_def tf_clip_by_value_def)
  ultimately show ?thesis
    using scenario_ratio scenario_gains by (simp add: scenario_defs)
qed

subsection \<open>The loss of each instance\<close>



subsection \<open>Construction\<close>

text \<open>
  Claim C3. Where the constructor of the superclass succeeds, \<open>__init__\<close> fails if and only
  if the clipping threshold is present and at most zero, the failure is the one of the
  assertion, and a model that is constructed holds the threshold as it was given, next to
  the attributes that the superclass set.
\<close>

theorem init_clipping_check:
  "((\<exists>e. (init clipping (Inr base) :: failure + ('v, 'x, 'i, 'e, 'q, 'a, 'f) pg_prob_ratio_model) = Inl e)
      \<longleftrightarrow> (\<exists>c. clipping = Some c \<and> c \<le> 0))
   \<and> (\<forall>e. (init clipping (Inr base) :: failure + ('v, 'x, 'i, 'e, 'q, 'a, 'f) pg_prob_ratio_model) = Inl e
          \<longrightarrow> e = Assertion_error)
   \<and> (\<forall>m :: ('v, 'x, 'i, 'e, 'q, 'a, 'f) pg_prob_ratio_model.
        init clipping (Inr base) = Inr m \<longrightarrow>
          likelihood_ratio_clipping m = clipping \<and> pg_model.truncate m = base)"
  by (cases clipping) (auto simp: init_def pg_model.defs pg_prob_ratio_model.defs not_less)

theorem init_clipping_check_witness:
  "(\<exists>c. Some (- 1 :: real) = Some c \<and> c \<le> 0)
   \<and> (init (Some (- 1)) (Inr (pg_model.truncate scenario_model))
        :: failure + (unit, unit, unit, unit, unit, unit, string) pg_prob_ratio_model)
       = Inl Assertion_error
   \<and> (init (Some (1 / 5)) (Inr (pg_model.truncate scenario_model))
        :: failure + (unit, unit, unit, unit, unit, unit, string) pg_prob_ratio_model)
       = Inr scenario_model
   \<and> likelihood_ratio_clipping scenario_model = Some (1 / 5)
   \<and> (init None (Inr (pg_model.truncate scenario_model))
        :: failure + (unit, unit, unit, unit, unit, unit, string) pg_prob_ratio_model)
       = Inr (scenario_model\<lparr>likelihood_ratio_clipping := None\<rparr>)
   \<and> likelihood_ratio_clipping (scenario_model\<lparr>likelihood_ratio_clipping := None\<rparr>) = None"
proof -
  let ?b = "pg_model.truncate scenario_model"
  have n: "\<exists>c. Some (- 1 :: real) = Some c \<and> c \<le> 0" by simp
  have a: "(init (Some (1 / 5)) (Inr ?b)
        :: failure + (unit, unit, unit, unit, unit, unit, string) pg_prob_ratio_model)
       = Inr scenario_model"
    and b: "(init None (Inr ?b)
        :: failure + (unit, unit, unit, unit, unit, unit, string) pg_prob_ratio_model)
       = Inr (scenario_model\<lparr>likelihood_ratio_clipping := None\<rparr>)"
    by (simp_all add: init_def scenario_model_def pg_model.defs pg_prob_ratio_model.defs)
  from init_clipping_check [of "Some (- 1)" ?b] n
  have c: "(init (Some (- 1)) (Inr ?b)
        :: failure + (unit, unit, unit, unit, unit, unit, string) pg_prob_ratio_model)
       = Inl Assertion_error"
    by blast
  from init_clipping_check [of "Some (1 / 5)" ?b] a
  have d: "likelihood_ratio_clipping scenario_model = Some (1 / 5)" by blast
  from init_clipping_check [of None ?b] b
  have e: "likelihood_ratio_clipping (scenario_model\<lparr>likelihood_ratio_clipping := None\<rparr>) = None"
    by blast
  from n a b c d e show ?thesis by blast
qed

subsection \<open>Reference and comparison\<close>

text \<open>
  Claim C4. When \<open>tf_reference\<close> returns a reference for a batch and \<open>tf_compare\<close> is given
  that reference, the same batch and the same variables, the ratio
  \<open>exp (log_prob_i - reference_i)\<close> that it computes is one for every instance.
\<close>

theorem reference_then_compare_ratio_one:
  assumes "tf_reference m vars b = Inr ref"
  shows "compare_prob_ratio m vars ref b = Inr (replicate (length ref) 1)"
proof -
  let ?e = "network m vars (states b) (internals b) (update b)"
  let ?names = "sort (map fst (distributions m))"
  from assms obtain lps where lps: "log_probs (distributions m) vars b ?e ?names = Inr lps"
    by (cases "log_probs (distributions m) vars b ?e ?names") (simp_all add: tf_reference_def)
  from assms lps obtain rows where rows: "tf_concat_axis1 lps = Inr rows"
    by (cases "tf_concat_axis1 lps") (simp_all add: tf_reference_def)
  from assms lps rows have lp: "tf_reduce_mean_axis1 rows = Inr ref"
    by (simp add: tf_reference_def)
  show ?thesis
    by (simp add: compare_prob_ratio_def lps rows lp elementwise_same_length map2_minus_self
        del: map_map)
qed

theorem reference_then_compare_ratio_one_witness:
  "tf_reference scenario_model () scenario_batch = Inr [ln (3 / 2), ln (1 / 2)]
   \<and> compare_prob_ratio scenario_model () [ln (3 / 2), ln (1 / 2)] scenario_batch = Inr [1, 1]"
proof -
  have r: "tf_reference scenario_model () scenario_batch = Inr [ln (3 / 2), ln (1 / 2)]"
    by (simp add: tf_reference_def scenario_defs tensor_defs)
  from reference_then_compare_ratio_one [OF r] r show ?thesis
    by (simp add: numeral_2_eq_2)
qed

subsection \<open>The ratio of the loss is one\<close>

text \<open>
  Claim C5. Where every channel finds its action and returns a log-probability tensor for
  the \<open>n\<close> instances of the batch, every entry of every channel's ratio
  \<open>exp (log_prob - stop_gradient (log_prob))\<close> is one, the combined ratio is one for every
  instance, whatever the reward, and without a clipping threshold the loss of instance \<open>i\<close>
  is \<open>- reward_i\<close>.
\<close>

theorem loss_ratio_is_one:
  assumes "distributions m \<noteq> []"
    "channels_fit vars b (network m vars (states b) (internals b) (update b)) n (distributions m)"
  shows "(\<exists>rs. prob_ratios vars b (network m vars (states b) (internals b) (update b)) (distributions m) = Inr rs
            \<and> length rs = length (distributions m)
            \<and> (\<forall>r \<in> set rs. length r = n \<and> (\<forall>row \<in> set r. row \<noteq> [] \<and> (\<forall>x \<in> set row. x = 1))))
       \<and> loss_prob_ratio m vars b = Inr (replicate n 1)
       \<and> (likelihood_ratio_clipping m = None \<and> length (reward b) = n
            \<longrightarrow> tf_loss_per_instance m vars b = Inr (map uminus (reward b)))"
proof (intro conjI impI)
  from prob_ratios_ones[OF assms(2)] obtain rs where
    rs: "prob_ratios vars b (network m vars (states b) (internals b) (update b)) (distributions m) = Inr rs"
      "length rs = length (distributions m)" "\<forall>r \<in> set rs. \<exists>c>0. r = replicate n (replicate c 1)"
    by blast
  have "\<forall>r \<in> set rs. length r = n \<and> (\<forall>row \<in> set r. row \<noteq> [] \<and> (\<forall>x \<in> set row. x = 1))"
    using rs(3) by fastforce
  then show "\<exists>rs. prob_ratios vars b (network m vars (states b) (internals b) (update b)) (distributions m) = Inr rs
            \<and> length rs = length (distributions m)
            \<and> (\<forall>r \<in> set rs. length r = n \<and> (\<forall>row \<in> set r. row \<noteq> [] \<and> (\<forall>x \<in> set row. x = 1)))"
    using rs(1,2) by blast
next
  show "loss_prob_ratio m vars b = Inr (replicate n 1)"
    using assms by (rule loss_prob_ratio_one)
next
  assume a: "likelihood_ratio_clipping m = None \<and> length (reward b) = n"
  have "map2 times (map uminus (replicate n 1)) rw = map uminus rw" if "length rw = n" for rw :: "real list"
    using that by (intro nth_equalityI) simp_all
  then show "tf_loss_per_instance m vars b = Inr (map uminus (reward b))"
    using a by (simp add: tf_loss_per_instance_def loss_prob_ratio_one[OF assms] elementwise_same_length)
qed

theorem loss_ratio_is_one_witness:
  "distributions (scenario_model\<lparr>likelihood_ratio_clipping := None\<rparr>) \<noteq> []
   \<and> channels_fit () scenario_batch () 2 (distributions (scenario_model\<lparr>likelihood_ratio_clipping := None\<rparr>))
   \<and> prob_ratios () scenario_batch () (distributions (scenario_model\<lparr>likelihood_ratio_clipping := None\<rparr>)) = Inr [[[1], [1]]]
   \<and> loss_prob_ratio (scenario_model\<lparr>likelihood_ratio_clipping := None\<rparr>) () scenario_batch = Inr [1, 1]
   \<and> likelihood_ratio_clipping (scenario_model\<lparr>likelihood_ratio_clipping := None\<rparr>) = None
   \<and> length (reward scenario_batch) = 2
   \<and> tf_loss_per_instance (scenario_model\<lparr>likelihood_ratio_clipping := None\<rparr>) () scenario_batch = Inr [- 1, 1]"
proof -
  let ?m = "scenario_model\<lparr>likelihood_ratio_clipping := None\<rparr>"
  have h1: "distributions ?m \<noteq> []" by (simp add: scenario_defs)
  have h2: "channels_fit () scenario_batch
              (network ?m () (states scenario_batch) (internals scenario_batch) (update scenario_batch))
              2 (distributions ?m)"
    by (simp add: scenario_defs tensor_defs)
  have h3: "likelihood_ratio_clipping ?m = None \<and> length (reward scenario_batch) = 2"
    by (simp add: scenario_defs)
  have p: "prob_ratios () scenario_batch () (distributions ?m) = Inr [[[1], [1]]]"
    by (simp add: scenario_defs tensor_defs)
  have r: "replicate 2 (1::real) = [1, 1]" by (simp add: numeral_2_eq_2)
  from loss_ratio_is_one [OF h1 h2]
  have "loss_prob_ratio ?m () scenario_batch = Inr (replicate 2 1)"
    and "tf_loss_per_instance ?m () scenario_batch = Inr (map uminus (reward scenario_batch))"
    using h3 by blast+
  then show ?thesis using h1 h2 h3 p r by (simp add: scenario_batch_def)
qed

subsection \<open>The order of the channels\<close>

text \<open>
  Claim C6. Two dictionaries of distributions with the same entries in different insertion
  orders give the same result of \<open>tf_reference\<close> and the same result of \<open>tf_compare\<close>, for
  every batch, reference and variables.
\<close>

theorem channel_order_invariance:
  assumes "distinct (map fst ds)" "distinct (map fst ds')" "set ds = set ds'"
  shows "tf_reference (m\<lparr>distributions := ds\<rparr>) vars b = tf_reference (m\<lparr>distributions := ds'\<rparr>) vars b
       \<and> tf_compare (m\<lparr>distributions := ds\<rparr>) vars ref b = tf_compare (m\<lparr>distributions := ds'\<rparr>) vars ref b"
proof -
  have "map_of ds = map_of ds'" using assms by (simp add: map_of_inject_set)
  then have "log_probs ds vars b e (sort (map fst ds)) = log_probs ds' vars b e (sort (map fst ds'))" for e
    using sorted_names_eq[OF assms] log_probs_cong by metis
  then show ?thesis
    by (simp add: tf_reference_def tf_compare_def compare_prob_ratio_def)
qed

theorem channel_order_invariance_witness:
  "distinct (map fst [(''b'', channel_b), (''a'', channel_a)])
   \<and> distinct (map fst [(''a'', channel_a), (''b'', channel_b)])
   \<and> set [(''b'', channel_b), (''a'', channel_a)] = set [(''a'', channel_a), (''b'', channel_b)]
   \<and> tf_reference (two_channel_model\<lparr>distributions := [(''b'', channel_b), (''a'', channel_a)]\<rparr>) () two_channel_batch = Inr [2]
   \<and> tf_reference (two_channel_model\<lparr>distributions := [(''a'', channel_a), (''b'', channel_b)]\<rparr>) () two_channel_batch = Inr [2]
   \<and> tf_compare (two_channel_model\<lparr>distributions := [(''b'', channel_b), (''a'', channel_a)]\<rparr>) () [2] two_channel_batch = Inr (19 / 20)
   \<and> tf_compare (two_channel_model\<lparr>distributions := [(''a'', channel_a), (''b'', channel_b)]\<rparr>) () [2] two_channel_batch = Inr (19 / 20)"
proof -
  have h: "distinct (map fst [(''b'', channel_b), (''a'', channel_a)])"
    "distinct (map fst [(''a'', channel_a), (''b'', channel_b)])"
    "set [(''b'', channel_b), (''a'', channel_a)] = set [(''a'', channel_a), (''b'', channel_b)]"
    by (simp_all add: insert_commute)
  have r: "tf_reference (two_channel_model\<lparr>distributions := [(''b'', channel_b), (''a'', channel_a)]\<rparr>) () two_channel_batch = Inr [2]"
    by (simp add: tf_reference_def two_channel_defs tensor_defs)
  have c: "tf_compare (two_channel_model\<lparr>distributions := [(''b'', channel_b), (''a'', channel_a)]\<rparr>) () [2] two_channel_batch = Inr (19 / 20)"
    by (simp add: tf_compare_def compare_prob_ratio_def gain_per_instance_def reduce_gain_def
        tf_reduce_mean_axis0_def tf_add_n_def two_channel_defs tensor_defs)
  from channel_order_invariance [OF h, of two_channel_model "()" two_channel_batch "[2]"] r c h
  show ?thesis by simp
qed

subsection \<open>The reduction of the gains\<close>

text \<open>
  Claim C7. \<open>tf_compare\<close> returns the mean of the gains of the instances over the batch,
  less the sum of the regularisation losses when their dictionary is not empty, and the mean
  itself when it is empty, which is no failure.
\<close>

theorem compare_mean_less_regularization:
  assumes "compare_prob_ratio m vars ref b = Inr pr"
    "gain_per_instance (likelihood_ratio_clipping m) pr
       (fn_reward_estimation m vars (states b) (internals b) (terminal b) (reward b) (update b))
     = Inr gains"
    "gains \<noteq> []"
  shows "tf_compare m vars ref b =
     Inr (if fn_regularization_losses m vars (states b) (internals b) (update b) = []
          then sum_list gains / real (length gains)
          else sum_list gains / real (length gains)
             - sum_list (map snd (fn_regularization_losses m vars (states b) (internals b) (update b))))"
  using assms by (simp add: tf_compare_def reduce_gain_eq)

theorem compare_mean_less_regularization_witness:
  "compare_prob_ratio scenario_model () [0, 0] scenario_batch = Inr [3 / 2, 1 / 2]
   \<and> gain_per_instance (likelihood_ratio_clipping scenario_model) [3 / 2, 1 / 2]
       (fn_reward_estimation scenario_model () (states scenario_batch) (internals scenario_batch)
          (terminal scenario_batch) (reward scenario_batch) (update scenario_batch))
     = Inr [6 / 5, - (5 / 6)]
   \<and> [6 / 5, - (5 / 6) :: real] \<noteq> []
   \<and> fn_regularization_losses scenario_model () (states scenario_batch) (internals scenario_batch)
        (update scenario_batch) = []
   \<and> tf_compare scenario_model () [0, 0] scenario_batch = Inr (11 / 60)
   \<and> tf_compare (scenario_model\<lparr>fn_regularization_losses := (\<lambda>_ _ _ _. [(''l2'', 1 / 20)])\<rparr>) ()
        [0, 0] scenario_batch = Inr (2 / 15)"
proof -
  let ?m = "scenario_model\<lparr>fn_regularization_losses := (\<lambda>_ _ _ _. [(''l2'', 1 / 20)])\<rparr>"
  have g: "gain_per_instance (likelihood_ratio_clipping scenario_model) [3 / 2, 1 / 2]
       (fn_reward_estimation scenario_model () (states scenario_batch) (internals scenario_batch)
          (terminal scenario_batch) (reward scenario_batch) (update scenario_batch))
     = Inr [6 / 5, - (5 / 6)]"
    using scenario_gains by (simp add: scenario_defs)
  have n: "[6 / 5, - (5 / 6) :: real] \<noteq> []" by simp
  have l: "fn_regularization_losses scenario_model () (states scenario_batch)
        (internals scenario_batch) (update scenario_batch) = []"
    by (simp add: scenario_defs)
  have r': "compare_prob_ratio ?m () [0, 0] scenario_batch = Inr [3 / 2, 1 / 2]"
    using scenario_ratio by (simp add: compare_prob_ratio_def)
  have g': "gain_per_instance (likelihood_ratio_clipping ?m) [3 / 2, 1 / 2]
       (fn_reward_estimation ?m () (states scenario_batch) (internals scenario_batch)
          (terminal scenario_batch) (reward scenario_batch) (update scenario_batch))
     = Inr [6 / 5, - (5 / 6)]"
    using g by simp
  from compare_mean_less_regularization [OF scenario_ratio g n]
  have "tf_compare scenario_model () [0, 0] scenario_batch = Inr (11 / 60)"
    unfolding l by simp
  moreover from compare_mean_less_regularization [OF r' g' n]
  have "tf_compare ?m () [0, 0] scenario_batch = Inr (2 / 15)"
    by simp
  ultimately show ?thesis using scenario_ratio g n l by blast
qed

subsection \<open>The combination of the channels\<close>




subsection \<open>Clipping is monotone in the threshold\<close>

text \<open>
  Claim C9. For ratios and rewards of the same length and two thresholds
  \<open>0 < c1 \<le> c2\<close>, the gain of instance \<open>i\<close> is
  \<open>min (ratio_i * reward_i) (clamp (ratio_i, 1 / (1 + c), 1 + c) * reward_i)\<close> under either
  threshold, and where \<open>reward_i\<close> is positive the gain under \<open>c1\<close> is at most the gain
  under \<open>c2\<close>.
\<close>

theorem clipped_gain_monotone:
  assumes "length pr = length rw" "0 < c1" "c1 \<le> c2"
  shows "\<exists>g1 g2. gain_per_instance (Some c1) pr rw = Inr g1
           \<and> gain_per_instance (Some c2) pr rw = Inr g2
           \<and> length g1 = length pr \<and> length g2 = length pr
           \<and> (\<forall>i < length pr.
                g1 ! i = min (pr ! i * rw ! i) (spec_clamp (pr ! i) (1 / (1 + c1)) (1 + c1) * rw ! i)
              \<and> g2 ! i = min (pr ! i * rw ! i) (spec_clamp (pr ! i) (1 / (1 + c2)) (1 + c2) * rw ! i)
              \<and> (0 < rw ! i \<longrightarrow> g1 ! i \<le> g2 ! i))"
proof -
  let ?g = "\<lambda>c. map2 (\<lambda>r w. min (r * w) (max (min r (1 + c)) (1 / (1 + c)) * w)) pr rw"
  have c2: "0 < c2" using assms by simp
  have entry: "?g c ! i = min (pr ! i * rw ! i) (spec_clamp (pr ! i) (1 / (1 + c)) (1 + c) * rw ! i)"
    if "i < length pr" "0 < c" for i c
    using that assms(1) by (simp add: clip_is_clamp)
  have "?g c1 ! i = min (pr ! i * rw ! i) (spec_clamp (pr ! i) (1 / (1 + c1)) (1 + c1) * rw ! i)
        \<and> ?g c2 ! i = min (pr ! i * rw ! i) (spec_clamp (pr ! i) (1 / (1 + c2)) (1 + c2) * rw ! i)
        \<and> (0 < rw ! i \<longrightarrow> ?g c1 ! i \<le> ?g c2 ! i)" if i: "i < length pr" for i
  proof (intro conjI impI)
    show "?g c1 ! i = min (pr ! i * rw ! i) (spec_clamp (pr ! i) (1 / (1 + c1)) (1 + c1) * rw ! i)"
      using i assms(2) by (rule entry)
    show "?g c2 ! i = min (pr ! i * rw ! i) (spec_clamp (pr ! i) (1 / (1 + c2)) (1 + c2) * rw ! i)"
      using i c2 by (rule entry)
    assume "0 < rw ! i"
    with assms(2,3) have "min (pr ! i * rw ! i) (max (min (pr ! i) (1 + c1)) (1 / (1 + c1)) * rw ! i)
       \<le> min (pr ! i * rw ! i) (max (min (pr ! i) (1 + c2)) (1 / (1 + c2)) * rw ! i)"
      by (rule clipped_gain_mono)
    then show "?g c1 ! i \<le> ?g c2 ! i" using i assms(1) by simp
  qed
  moreover have "length (?g c1) = length pr" "length (?g c2) = length pr"
    using assms(1) by simp_all
  ultimately show ?thesis
    unfolding gain_per_instance_clipped[OF assms(1)] by blast
qed

theorem clipped_gain_monotone_witness:
  "length [3 / 2, 1 / 2 :: real] = length [1, 1 :: real] \<and> (0 :: real) < 1 / 5
   \<and> (1 / 5 :: real) \<le> 1 / 2
   \<and> gain_per_instance (Some (1 / 5)) [3 / 2, 1 / 2] [1, 1] = Inr [6 / 5, 1 / 2]
   \<and> gain_per_instance (Some (1 / 2)) [3 / 2, 1 / 2] [1, 1] = Inr [3 / 2, 1 / 2]
   \<and> (0 :: real) < [1, 1] ! 0 \<and> [6 / 5, 1 / 2 :: real] ! 0 \<le> [3 / 2, 1 / 2] ! 0"
proof -
  have h: "length [3 / 2, 1 / 2 :: real] = length [1, 1 :: real]" "(0 :: real) < 1 / 5"
    "(1 / 5 :: real) \<le> 1 / 2" by simp_all
  have e: "gain_per_instance (Some (1 / 5)) [3 / 2, 1 / 2] [1, 1] = Inr [6 / 5, 1 / 2]"
     "gain_per_instance (Some (1 / 2)) [3 / 2, 1 / 2] [1, 1] = Inr [3 / 2, 1 / 2]"
    by (simp_all add: gain_per_instance_def clipped_prob_ratio_def tf_clip_by_value_def elementwise_def)
  have p: "(0 :: real) < [1, 1] ! 0" by simp
  from clipped_gain_monotone [OF h] obtain g1 g2 where
    g: "gain_per_instance (Some (1 / 5)) [3 / 2, 1 / 2] [1, 1] = Inr g1"
       "gain_per_instance (Some (1 / 2)) [3 / 2, 1 / 2] [1, 1] = Inr g2"
       "0 < [1, 1 :: real] ! 0 \<longrightarrow> g1 ! 0 \<le> g2 ! 0"
    by fastforce
  from g(1) e(1) have g1: "g1 = [6 / 5, 1 / 2]" by simp
  from g(2) e(2) have g2: "g2 = [3 / 2, 1 / 2]" by simp
  from g(3) p have "g1 ! 0 \<le> g2 ! 0" by blast
  then have "[6 / 5, 1 / 2 :: real] ! 0 \<le> [3 / 2, 1 / 2] ! 0" unfolding g1 g2 .
  then show ?thesis using h e p by blast
qed

subsection \<open>The arguments of the optimizer\<close>

text \<open>
  Claim C10. The dictionary that \<open>optimizer_arguments\<close> returns binds \<open>fn_reference\<close> to
  the attribute \<open>reference\<close> and \<open>fn_compare\<close> to the attribute \<open>compare\<close>, and at every
  other key it is the dictionary of the superclass.
\<close>

theorem optimizer_arguments_entries:
  "optimizer_arguments m super_arguments ''fn_reference'' = Some (reference m)
   \<and> optimizer_arguments m super_arguments ''fn_compare'' = Some (compare m)
   \<and> (\<forall>k. k \<noteq> ''fn_reference'' \<and> k \<noteq> ''fn_compare'' \<longrightarrow>
         optimizer_arguments m super_arguments k = super_arguments k)"
  by (simp add: optimizer_arguments_def)

theorem optimizer_arguments_entries_witness:
  "''fn_loss'' \<noteq> ''fn_reference'' \<and> ''fn_loss'' \<noteq> ''fn_compare''
   \<and> optimizer_arguments (scenario_model\<lparr>reference := Some ''reference'', compare := Some ''compare''\<rparr>)
        [''fn_loss'' \<mapsto> Some ''loss''] ''fn_loss'' = Some (Some ''loss'')
   \<and> optimizer_arguments (scenario_model\<lparr>reference := Some ''reference'', compare := Some ''compare''\<rparr>)
        [''fn_loss'' \<mapsto> Some ''loss''] ''fn_reference'' = Some (Some ''reference'')
   \<and> optimizer_arguments (scenario_model\<lparr>reference := Some ''reference'', compare := Some ''compare''\<rparr>)
        [''fn_loss'' \<mapsto> Some ''loss''] ''fn_compare'' = Some (Some ''compare'')"
proof -
  have h: "''fn_loss'' \<noteq> ''fn_reference'' \<and> ''fn_loss'' \<noteq> ''fn_compare''" by simp
  from optimizer_arguments_entries
    [of "scenario_model\<lparr>reference := Some ''reference'', compare := Some ''compare''\<rparr>"
        "[''fn_loss'' \<mapsto> Some ''loss'']"] h
  show ?thesis by simp
qed

end
